theory Spec2Isabelle
  imports Main
begin

section \<open>JavaScript values\<close>

text \<open>
  The SDK messages, the option records and the session id are typed \<^verbatim>\<open>any\<close> in
  \<^verbatim>\<open>ClaudeCodeService\<close>, so they are modelled as JSON-like JavaScript values. Numbers
  are integers (\<^verbatim>\<open>NaN\<close> and fractions are not represented); an object is an association
  list in which the first binding of a key is the property's value.
\<close>

datatype jsval =
    JUndefined
  | JNull
  | JBool bool
  | JNum int
  | JStr string
  | JArr "jsval list"
  | JObj "(string \<times> jsval) list"

type_synonym jsobject = "(string \<times> jsval) list"

text \<open>JavaScript truthiness, as used by \<^verbatim>\<open>if (x)\<close>, \<^verbatim>\<open>x && y\<close> and \<^verbatim>\<open>x || y\<close>.\<close>

fun truthy :: "jsval \<Rightarrow> bool" where
  "truthy JUndefined = False"
| "truthy JNull = False"
| "truthy (JBool b) = b"
| "truthy (JNum n) = (n \<noteq> 0)"
| "truthy (JStr s) = (s \<noteq> [])"
| "truthy (JArr xs) = True"
| "truthy (JObj kvs) = True"

text \<open>\<^verbatim>\<open>'k' in m\<close> and \<^verbatim>\<open>m.k\<close> on an object.\<close>

definition hasProp :: "jsobject \<Rightarrow> string \<Rightarrow> bool" where
  "hasProp m k = (map_of m k \<noteq> None)"

definition getProp :: "jsobject \<Rightarrow> string \<Rightarrow> jsval" where
  "getProp m k = (case map_of m k of None \<Rightarrow> JUndefined | Some v \<Rightarrow> v)"

text \<open>\<^verbatim>\<open>v.k\<close> on an arbitrary truthy value: only objects carry JSON properties.\<close>

definition getMember :: "jsval \<Rightarrow> string \<Rightarrow> jsval" where
  "getMember v k = (case v of JObj kvs \<Rightarrow> getProp kvs k | _ \<Rightarrow> JUndefined)"

text \<open>\<^verbatim>\<open>a || b\<close> on values.\<close>

definition js_or :: "jsval \<Rightarrow> jsval \<Rightarrow> jsval" where
  "js_or a b = (if truthy a then a else b)"

section \<open>Strings\<close>

text \<open>
  Strings are lists of code units below 256. \<^verbatim>\<open>toLowerCase\<close> maps the ASCII and
  Latin-1 capital letters to their small letters and leaves every other unit alone.
\<close>

definition toLowerChar :: "char \<Rightarrow> char" where
  "toLowerChar c =
     (let n = (of_char c :: nat)
      in if (65 \<le> n \<and> n \<le> 90) \<or> (192 \<le> n \<and> n \<le> 222 \<and> n \<noteq> 215)
         then char_of (n + 32) else c)"

definition toLowerCase :: "string \<Rightarrow> string" where
  "toLowerCase s = map toLowerChar s"

fun startsWith :: "string \<Rightarrow> string \<Rightarrow> bool" where
  "startsWith s [] = True"
| "startsWith [] (p # ps) = False"
| "startsWith (c # cs) (p # ps) = (c = p \<and> startsWith cs ps)"

text \<open>\<^verbatim>\<open>s.includes(p)\<close>: \<open>p\<close> occurs in \<open>s\<close> as a contiguous substring.\<close>

fun js_includes :: "string \<Rightarrow> string \<Rightarrow> bool" where
  "js_includes [] p = startsWith [] p"
| "js_includes (c # cs) p = (startsWith (c # cs) p \<or> js_includes cs p)"

text \<open>
  \<^verbatim>\<open>xs.join(sep)\<close> on an array of strings in which an element may be \<^verbatim>\<open>undefined\<close>
  (\<open>None\<close>), which \<^verbatim>\<open>join\<close> renders as the empty string.
\<close>

definition joinElem :: "string option \<Rightarrow> string" where
  "joinElem x = (case x of None \<Rightarrow> [] | Some s \<Rightarrow> s)"

fun js_join :: "string \<Rightarrow> string option list \<Rightarrow> string" where
  "js_join sep [] = []"
| "js_join sep [x] = joinElem x"
| "js_join sep (x # y # ys) = joinElem x @ sep @ js_join sep (y # ys)"

section \<open>Errors and the authentication-error classifier\<close>

text \<open>A thrown \<^verbatim>\<open>Error\<close> with its message; \<^verbatim>\<open>`${error}`\<close> renders it with the class name.\<close>

datatype error = Error (message: string)

definition errorString :: "error \<Rightarrow> string" where
  "errorString e = ''Error: '' @ message e"

definition authErrorPatterns :: "string list" where
  "authErrorPatterns =
     [''authentication failed'',
      ''invalid api key'',
      ''unauthorized'',
      ''authentication error'',
      ''invalid token'',
      ''access denied'',
      ''401'',
      ''ANTHROPIC_API_KEY'']"

definition isApiKeyAuthError :: "string \<Rightarrow> bool" where
  "isApiKeyAuthError errorMessage =
     (let lowercaseMessage = toLowerCase errorMessage
      in list_ex (\<lambda>pattern. js_includes lowercaseMessage pattern) authErrorPatterns)"

section \<open>The service, its environment and the world it acts on\<close>

datatype abortController = SuppliedController nat | NewController

record queryParams =
  qp_prompt :: string
  qp_abortController :: abortController
  qp_options :: "string \<rightharpoonup> jsval"

text \<open>
  The \<^verbatim>\<open>AsyncGenerator\<close> returned by the SDK, as the \<^verbatim>\<open>for await\<close> loop sees it:
  it ends, yields a message and continues, or throws.
\<close>

datatype sdkStream = StreamEnd | StreamYield jsobject sdkStream | StreamThrow error

type_synonym queryFunction = "queryParams \<Rightarrow> sdkStream"

text \<open>A loaded SDK module is represented by its \<^verbatim>\<open>query\<close> export, if it has one.\<close>

type_synonym sdkModule = "queryFunction option"

text \<open>
  \<^verbatim>\<open>initializationPromise\<close> holds no promise, the promise of an initialization still in
  flight, or a fulfilled one. A rejected promise is never stored: the handler in
  \<^verbatim>\<open>initialize\<close> resets the field to \<^verbatim>\<open>null\<close>. Calls are modelled one after another,
  and an initialization in flight runs to completion where it is first awaited.
\<close>

datatype promise = Pending | Fulfilled

record service =
  isInitialized :: bool
  initializationPromise :: "promise option"
  workingDirectory :: string
  currentSessionId :: jsval
  claudeCodeQuery :: "queryFunction option"

datatype fsnode = File string | Directory

datatype notification = ErrorMessage string | WarningMessage string

text \<open>
  What the service can change outside itself: the file system, the notifications shown
  by the editor, \<^verbatim>\<open>process.env.ANTHROPIC_API_KEY\<close>, and the calls made to the SDK's query
  entry point. Logging is not modelled.
\<close>

record world =
  fs :: "string \<rightharpoonup> fsnode"
  notifications :: "notification list"
  envApiKey :: "string option"
  sdkCalls :: "queryParams list"

text \<open>
  What the service reads from its surroundings. The file-system calls that can throw take
  their outcome from here, and so does \<^verbatim>\<open>process.cwd()\<close>, which throws when the current
  directory is gone. The two long prompt texts (the content of \<^verbatim>\<open>CLAUDE.md\<close> and the
  system prompt, both templates over a directory), \<^verbatim>\<open>path.join\<close>, \<^verbatim>\<open>path.dirname\<close>
  and \<^verbatim>\<open>JSON.stringify\<close> are parameters.
\<close>

record environment =
  workspaceRoot :: "string option"
  tmpdir :: string
  cwd :: "error + string"
  pathJoin :: "string \<Rightarrow> string \<Rightarrow> string"
  pathDirname :: "string \<Rightarrow> string"
  anthropicApiKey :: "string option"
  mkdirError :: "string \<Rightarrow> error option"
  writeError :: "string \<Rightarrow> error option"
  statError :: "string \<Rightarrow> error option"
  possiblePaths :: "string list"
  importFile :: "string \<Rightarrow> error + sdkModule"
  importPackage :: "error + sdkModule"
  claudeMdContent :: "string \<Rightarrow> string"
  systemPrompt :: "string \<Rightarrow> string"
  jsonStringify :: "jsval \<Rightarrow> string"

definition truthyString :: "string option \<Rightarrow> bool" where
  "truthyString x = (case x of None \<Rightarrow> False | Some s \<Rightarrow> s \<noteq> [])"

definition existsSync :: "world \<Rightarrow> string \<Rightarrow> bool" where
  "existsSync w p = (fs w p \<noteq> None)"

definition mkdirSync :: "environment \<Rightarrow> string \<Rightarrow> world \<Rightarrow> error option \<times> world" where
  "mkdirSync env p w =
     (case mkdirError env p of
        Some e \<Rightarrow> (Some e, w)
      | None \<Rightarrow> (None, w\<lparr>fs := (fs w)(p \<mapsto> Directory)\<rparr>))"

definition showErrorMessage :: "string \<Rightarrow> world \<Rightarrow> world" where
  "showErrorMessage text w = w\<lparr>notifications := notifications w @ [ErrorMessage text]\<rparr>"

definition showWarningMessage :: "string \<Rightarrow> world \<Rightarrow> world" where
  "showWarningMessage text w = w\<lparr>notifications := notifications w @ [WarningMessage text]\<rparr>"

section \<open>Workspace setup\<close>

text \<open>
  \<^verbatim>\<open>createClaudeMdFile\<close>: when the file exists it is only inspected (\<^verbatim>\<open>statSync\<close>, which
  may throw); otherwise it is written inside a handler that logs a failure and goes on.
\<close>

definition createClaudeMdFile :: "environment \<Rightarrow> string \<Rightarrow> world \<Rightarrow> error option \<times> world" where
  "createClaudeMdFile env directory w =
     (let claudeMdPath = pathJoin env directory ''CLAUDE.md''
      in if existsSync w claudeMdPath then (statError env claudeMdPath, w)
         else (case writeError env claudeMdPath of
                 Some e \<Rightarrow> (None, w)
               | None \<Rightarrow>
                   (None, w\<lparr>fs := (fs w)(claudeMdPath \<mapsto> File (claudeMdContent env directory))\<rparr>)))"

text \<open>Create the directory if missing, make it the working directory, write the file.\<close>

definition useDirectory ::
  "environment \<Rightarrow> string \<Rightarrow> service \<Rightarrow> world \<Rightarrow> error option \<times> service \<times> world" where
  "useDirectory env dir s w =
     (case (if \<not> existsSync w dir then mkdirSync env dir w else (None, w)) of
        (Some e, w1) \<Rightarrow> (Some e, s, w1)
      | (None, w1) \<Rightarrow>
          (let s1 = s\<lparr>workingDirectory := dir\<rparr>
           in case createClaudeMdFile env dir w1 of (r, w2) \<Rightarrow> (r, s1, w2)))"

text \<open>The body of the \<^verbatim>\<open>try\<close> block of \<^verbatim>\<open>setupWorkingDirectory\<close>.\<close>

definition setupWorkingDirectory_try ::
  "environment \<Rightarrow> service \<Rightarrow> world \<Rightarrow> error option \<times> service \<times> world" where
  "setupWorkingDirectory_try env s w =
     (if truthyString (workspaceRoot env) then
        (case workspaceRoot env of
           Some root \<Rightarrow> useDirectory env (pathJoin env root ''.superdesign'') s w
         | None \<Rightarrow> (None, s, w))
      else
        (case useDirectory env (pathJoin env (tmpdir env) ''superdesign-claude'') s w of
           (Some e, s1, w1) \<Rightarrow> (Some e, s1, w1)
         | (None, s1, w1) \<Rightarrow>
             (None, s1,
              showWarningMessage
                ''No workspace folder found. Using temporary directory for Claude Code operations.''
                w1)))"

text \<open>
  \<^verbatim>\<open>setupWorkingDirectory\<close>: whatever the block throws is caught, and the working
  directory falls back to the process's current directory. The handler itself is not
  guarded: what \<^verbatim>\<open>process.cwd()\<close> throws there leaves the function, before the working
  directory is assigned. The first component is the error that leaves the function.
\<close>

definition setupWorkingDirectory ::
  "environment \<Rightarrow> service \<Rightarrow> world \<Rightarrow> error option \<times> service \<times> world" where
  "setupWorkingDirectory env s w =
     (case setupWorkingDirectory_try env s w of
        (Some e, s1, w1) \<Rightarrow>
          (case cwd env of
             Inl cwdError \<Rightarrow> (Some cwdError, s1, w1)
           | Inr directory \<Rightarrow> (None, s1\<lparr>workingDirectory := directory\<rparr>, w1))
      | (None, s1, w1) \<Rightarrow> (None, s1, w1))"

section \<open>Initialization\<close>

text \<open>The loop over the candidate module paths: the first that exists and loads wins.\<close>

fun importLocal :: "environment \<Rightarrow> world \<Rightarrow> string list \<Rightarrow> sdkModule option" where
  "importLocal env w [] = None"
| "importLocal env w (modulePath # rest) =
     (if existsSync w modulePath then
        (case importFile env (''file://'' @ modulePath) of
           Inr m \<Rightarrow> Some m
         | Inl pathError \<Rightarrow> importLocal env w rest)
      else importLocal env w rest)"

definition importModule :: "environment \<Rightarrow> world \<Rightarrow> error + sdkModule" where
  "importModule env w =
     (case importLocal env w (possiblePaths env) of
        Some m \<Rightarrow> Inr m
      | None \<Rightarrow> importPackage env)"

text \<open>The body of the outer \<^verbatim>\<open>try\<close> block of \<^verbatim>\<open>initialize\<close>.\<close>

definition initialize_try ::
  "environment \<Rightarrow> service \<Rightarrow> world \<Rightarrow> error option \<times> service \<times> world" where
  "initialize_try env s w =
     (case setupWorkingDirectory env s w of
        (Some e, s1, w1) \<Rightarrow> (Some e, s1, w1)
      | (None, s1, w1) \<Rightarrow>
          (let w2 = (if truthyString (anthropicApiKey env)
                     then w1\<lparr>envApiKey := anthropicApiKey env\<rparr> else w1)
           in case importModule env w2 of
                Inl importError \<Rightarrow>
                  (Some (Error (''Claude Code SDK import failed: '' @ errorString importError)),
                   s1, w2)
              | Inr m \<Rightarrow>
                  (let s2 = s1\<lparr>claudeCodeQuery := m\<rparr>
                   in if m = None then
                        (Some (Error (''Claude Code SDK import failed: '' @
                           errorString (Error ''Query function not found in Claude Code module''))),
                         s2, w2)
                      else (None, s2\<lparr>isInitialized := True\<rparr>, w2))))"

definition initialize ::
  "environment \<Rightarrow> service \<Rightarrow> world \<Rightarrow> error option \<times> service \<times> world" where
  "initialize env s w =
     (if isInitialized s then (None, s, w)
      else
        (case initialize_try env s w of
           (None, s1, w1) \<Rightarrow> (None, s1, w1)
         | (Some e, s1, w1) \<Rightarrow>
             (Some e,
              s1\<lparr>initializationPromise := None, isInitialized := False\<rparr>,
              (if \<not> isApiKeyAuthError (message e)
               then showErrorMessage (''Failed to initialize Claude Code: '' @ errorString e) w1
               else w1))))"

text \<open>
  Awaiting the promise of a call of \<^verbatim>\<open>initialize\<close> that is stored in
  \<^verbatim>\<open>initializationPromise\<close>: on success the stored promise is fulfilled, on failure the
  handler has reset the field.
\<close>

definition awaitInitialize ::
  "environment \<Rightarrow> service \<Rightarrow> world \<Rightarrow> error option \<times> service \<times> world" where
  "awaitInitialize env s w =
     (case initialize env (s\<lparr>initializationPromise := Some Pending\<rparr>) w of
        (None, s1, w1) \<Rightarrow> (None, s1\<lparr>initializationPromise := Some Fulfilled\<rparr>, w1)
      | (Some e, s1, w1) \<Rightarrow> (Some e, s1, w1))"

text \<open>The constructor starts the initialization and stores its promise.\<close>

definition newService :: service where
  "newService =
     \<lparr>isInitialized = False, initializationPromise = Some Pending, workingDirectory = [],
      currentSessionId = JNull, claudeCodeQuery = None\<rparr>"

definition ensureInitialized ::
  "environment \<Rightarrow> service \<Rightarrow> world \<Rightarrow> error option \<times> service \<times> world" where
  "ensureInitialized env s w =
     (case (if initializationPromise s = Some Pending then awaitInitialize env s w
            else (None, s, w)) of
        (Some e, s1, w1) \<Rightarrow> (Some e, s1, w1)
      | (None, s1, w1) \<Rightarrow>
          (if \<not> isInitialized s1 \<or> claudeCodeQuery s1 = None then
             (if initializationPromise s1 = None then awaitInitialize env s1 w1
              else (Some (Error ''Claude Code SDK not initialized''), s1, w1))
           else (None, s1, w1)))"

definition clearSession :: "service \<Rightarrow> service" where
  "clearSession s = s\<lparr>currentSessionId := JNull\<rparr>"

section \<open>The query\<close>

subsection \<open>Flattening a conversation history into a prompt\<close>

text \<open>
  The history is a list of \<^verbatim>\<open>CoreMessage\<close>s: a role and a content that is a string, an
  array of parts, or something else. A part has a type and, possibly, a text.
\<close>

record part =
  partType :: string
  partText :: "string option"

datatype messageContent = StringContent string | ArrayContent "part list" | OtherContent

record conversationMessage =
  msgRole :: string
  msgContent :: messageContent

definition renderPart :: "part \<Rightarrow> string option" where
  "renderPart p = (if partType p = ''text'' then partText p else Some (''['' @ partType p @ '']''))"

definition contentString :: "messageContent \<Rightarrow> string" where
  "contentString c =
     (case c of
        StringContent str \<Rightarrow> str
      | ArrayContent parts \<Rightarrow> js_join [] (map renderPart parts)
      | OtherContent \<Rightarrow> ''[complex content]'')"

definition renderMessage :: "conversationMessage \<Rightarrow> string" where
  "renderMessage msg = msgRole msg @ '': '' @ contentString (msgContent msg)"

definition effectivePrompt ::
  "string option \<Rightarrow> conversationMessage list option \<Rightarrow> string option" where
  "effectivePrompt prompt0 conversationMessages =
     (if \<not> truthyString prompt0 then
        (case conversationMessages of
           None \<Rightarrow> prompt0
         | Some msgs \<Rightarrow>
             (if length msgs > 0
              then Some (js_join [CHR 0x0A, CHR 0x0A] (map (\<lambda>msg. Some (renderMessage msg)) msgs))
              else prompt0))
      else prompt0)"

subsection \<open>Option assembly\<close>

definition allowedTools :: "string list" where
  "allowedTools =
     [''Edit'', ''Read'', ''Create'', ''Write'', ''Glob'', ''Grep'', ''LS'', ''WebFetch'',
      ''TodoRead'', ''TodoWrite'', ''WebSearch'', ''MultiEdit'', ''Search'', ''Update'',
      ''Task'', ''Delete'', ''Bash'']"

definition defaultOptions :: "environment \<Rightarrow> service \<Rightarrow> (string \<rightharpoonup> jsval)" where
  "defaultOptions env s =
     [''maxTurns'' \<mapsto> JNum 999,
      ''allowedTools'' \<mapsto> JArr (map JStr allowedTools),
      ''permissionMode'' \<mapsto> JStr ''acceptEdits'',
      ''cwd'' \<mapsto> JStr (workingDirectory s),
      ''customSystemPrompt'' \<mapsto> JStr (systemPrompt env (workingDirectory s))]"

text \<open>
  \<^verbatim>\<open>finalOptions\<close>: the defaults, then the spread of the caller's options, then the
  assignment of \<^verbatim>\<open>resume\<close> when the current session id is truthy.
\<close>

definition finalOptions ::
  "environment \<Rightarrow> service \<Rightarrow> (string \<rightharpoonup> jsval) option \<Rightarrow> (string \<rightharpoonup> jsval)" where
  "finalOptions env s options0 =
     (let merged = defaultOptions env s ++ (case options0 of None \<Rightarrow> Map.empty | Some opts \<Rightarrow> opts)
      in if truthy (currentSessionId s) then merged(''resume'' \<mapsto> currentSessionId s)
         else merged)"

subsection \<open>Message translation\<close>

record coreMessage =
  role :: string
  content :: jsval

text \<open>
  The conversion inside the per-message \<^verbatim>\<open>try\<close> block: the message handed to
  \<^verbatim>\<open>onMessage\<close>, nothing, or the error thrown while converting
  (\<^verbatim>\<open>text.substring\<close> on a truthy value that is not a string).
\<close>

definition convertMessage :: "environment \<Rightarrow> jsobject \<Rightarrow> error + coreMessage option" where
  "convertMessage env m =
     (if getProp m ''type'' = JStr ''text'' \<and> truthy (getProp m ''text'') then
        (case getProp m ''text'' of
           JStr t \<Rightarrow> Inr (Some \<lparr>role = ''assistant'', content = JStr t\<rparr>)
         | _ \<Rightarrow> Inl (Error ''message.text.substring is not a function''))
      else if getProp m ''type'' = JStr ''tool_use'' then
        Inr (Some \<lparr>role = ''assistant'',
                   content = JArr [JObj [(''type'', JStr ''tool-call''),
                                         (''toolCallId'', getProp m ''id''),
                                         (''toolName'', getProp m ''name''),
                                         (''args'', getProp m ''input'')]]\<rparr>)
      else if getProp m ''type'' = JStr ''tool_result'' then
        Inr (Some \<lparr>role = ''tool'',
                   content = JArr [JObj [(''type'', JStr ''tool-result''),
                                         (''toolCallId'', getProp m ''tool_use_id''),
                                         (''toolName'', JStr []),
                                         (''result'', getProp m ''content'')]]\<rparr>)
      else if getProp m ''type'' = JStr ''assistant'' \<and> truthy (getProp m ''message'') then
        Inr (Some \<lparr>role = ''assistant'',
                   content = (case getProp m ''message'' of
                                JStr str \<Rightarrow> JStr str
                              | v \<Rightarrow> js_or (getMember v ''content'') (JStr []))\<rparr>)
      else if getProp m ''type'' = JStr ''result'' then
        (if truthy (getProp m ''content'') \<or> truthy (getProp m ''result'') then
           (let c = js_or (getProp m ''content'') (getProp m ''result'')
            in Inr (Some \<lparr>role = ''tool'',
                          content = JArr [JObj [(''type'', JStr ''tool-result''),
                                                (''toolCallId'',
                                                 js_or (getProp m ''parent_tool_use_id'') (JStr ''unknown'')),
                                                (''toolName'', JStr []),
                                                (''result'',
                                                 (case c of JStr str \<Rightarrow> JStr str
                                                  | v \<Rightarrow> JStr (jsonStringify env v)))]]\<rparr>))
         else Inr None)
      else Inr None)"

text \<open>
  The sink \<^verbatim>\<open>onMessage\<close> returns the error it throws, if any. What it throws is caught by
  the same handler as a conversion error, so it changes nothing but the log.
\<close>

type_synonym sink = "coreMessage \<Rightarrow> error option"

text \<open>
  One round of the streaming block: the messages \<^verbatim>\<open>onMessage\<close> is called with (none when
  no sink was supplied, when nothing is converted and when the conversion throws).
\<close>

definition deliver :: "environment \<Rightarrow> sink option \<Rightarrow> jsobject \<Rightarrow> coreMessage list" where
  "deliver env onMessage m =
     (case onMessage of
        None \<Rightarrow> []
      | Some callback \<Rightarrow>
          (case convertMessage env m of
             Inl callbackError \<Rightarrow> []
           | Inr None \<Rightarrow> []
           | Inr (Some coreMsg) \<Rightarrow> (case callback coreMsg of _ \<Rightarrow> [coreMsg])))"

text \<open>
  The \<^verbatim>\<open>for await\<close> loop: every message is pushed to \<^verbatim>\<open>messages\<close> and handed to the
  streaming block. The result is the error that ended the loop (if any), the accumulated
  messages and the calls made to the sink.
\<close>

fun consume ::
  "environment \<Rightarrow> sink option \<Rightarrow> sdkStream \<Rightarrow> jsobject list \<Rightarrow> coreMessage list \<Rightarrow>
   error option \<times> jsobject list \<times> coreMessage list" where
  "consume env onMessage StreamEnd messages delivered = (None, messages, delivered)"
| "consume env onMessage (StreamThrow e) messages delivered = (Some e, messages, delivered)"
| "consume env onMessage (StreamYield m rest) messages delivered =
     consume env onMessage rest (messages @ [m]) (delivered @ deliver env onMessage m)"

subsection \<open>Session-id adoption\<close>

definition lastMessageWithSessionId :: "jsobject list \<Rightarrow> jsobject option" where
  "lastMessageWithSessionId messages =
     find (\<lambda>m. hasProp m ''session_id'' \<and> truthy (getProp m ''session_id'')) (rev messages)"

definition adoptSessionId :: "jsobject list \<Rightarrow> service \<Rightarrow> service" where
  "adoptSessionId messages s =
     (case lastMessageWithSessionId messages of
        None \<Rightarrow> s
      | Some m \<Rightarrow>
          (if hasProp m ''session_id'' \<and> truthy (getProp m ''session_id'')
           then s\<lparr>currentSessionId := getProp m ''session_id''\<rparr>
           else s))"

subsection \<open>\<^verbatim>\<open>query\<close>\<close>

text \<open>The two logging checks for \<^verbatim>\<open>CLAUDE.md\<close>; only a throwing \<^verbatim>\<open>statSync\<close> matters.\<close>

definition checkClaudeMd :: "environment \<Rightarrow> service \<Rightarrow> world \<Rightarrow> error option" where
  "checkClaudeMd env s w =
     (let claudeMdPath = pathJoin env (workingDirectory s) ''CLAUDE.md'';
          parentClaudeMd = pathJoin env (pathDirname env (workingDirectory s)) ''CLAUDE.md''
      in case (if existsSync w claudeMdPath then statError env claudeMdPath else None) of
           Some e \<Rightarrow> Some e
         | None \<Rightarrow> (if existsSync w parentClaudeMd then statError env parentClaudeMd else None))"

text \<open>\<^verbatim>\<open>queryParams\<close>: the prompt, the caller's abort controller or a new one, the options.\<close>

definition makeQueryParams ::
  "environment \<Rightarrow> service \<Rightarrow> string \<Rightarrow> (string \<rightharpoonup> jsval) option \<Rightarrow> nat option \<Rightarrow>
   queryParams" where
  "makeQueryParams env s prompt1 options0 abort0 =
     \<lparr>qp_prompt = prompt1,
      qp_abortController =
        (case abort0 of Some c \<Rightarrow> SuppliedController c | None \<Rightarrow> NewController),
      qp_options = finalOptions env s options0\<rparr>"

text \<open>
  The body of the \<^verbatim>\<open>try\<close> block of \<^verbatim>\<open>query\<close>. The result is the returned messages or
  the thrown error, the service, the world, and the calls made to the sink.
\<close>

definition query_try ::
  "environment \<Rightarrow> service \<Rightarrow> world \<Rightarrow> string \<Rightarrow> (string \<rightharpoonup> jsval) option \<Rightarrow> nat option \<Rightarrow>
   sink option \<Rightarrow> (error + jsobject list) \<times> service \<times> world \<times> coreMessage list" where
  "query_try env s w prompt1 options0 abort0 onMessage =
     (let params = makeQueryParams env s prompt1 options0 abort0
      in case claudeCodeQuery s of
           None \<Rightarrow>
             (Inl (Error ''Claude Code SDK not properly initialized - query function not available''),
              s, w, [])
         | Some sdkQuery \<Rightarrow>
             (case checkClaudeMd env s w of
                Some e \<Rightarrow> (Inl e, s, w, [])
              | None \<Rightarrow>
                  (let w1 = w\<lparr>sdkCalls := sdkCalls w @ [params]\<rparr>
                   in case consume env onMessage (sdkQuery params) [] [] of
                        (Some e, messages, delivered) \<Rightarrow> (Inl e, s, w1, delivered)
                      | (None, messages, delivered) \<Rightarrow>
                          (Inr messages, adoptSessionId messages s, w1, delivered))))"

text \<open>The error thrown when no prompt is left after the history has been looked at.\<close>

definition MissingPrompt :: error where
  "MissingPrompt = Error ''ClaudeCodeService requires a prompt parameter''"

definition query ::
  "environment \<Rightarrow> service \<Rightarrow> world \<Rightarrow> string option \<Rightarrow> conversationMessage list option \<Rightarrow>
   (string \<rightharpoonup> jsval) option \<Rightarrow> nat option \<Rightarrow> sink option \<Rightarrow>
   (error + jsobject list) \<times> service \<times> world \<times> coreMessage list" where
  "query env s w prompt0 conversationMessages options0 abort0 onMessage =
     (case effectivePrompt prompt0 conversationMessages of
        None \<Rightarrow> (Inl MissingPrompt, s, w, [])
      | Some prompt1 \<Rightarrow>
          (if prompt1 = [] then (Inl MissingPrompt, s, w, [])
           else
             (case ensureInitialized env s w of
                (Some e, s1, w1) \<Rightarrow> (Inl e, s1, w1, [])
              | (None, s1, w1) \<Rightarrow>
                  (case query_try env s1 w1 prompt1 options0 abort0 onMessage of
                     (Inr messages, s2, w2, delivered) \<Rightarrow> (Inr messages, s2, w2, delivered)
                   | (Inl e, s2, w2, delivered) \<Rightarrow>
                       (Inl e, s2,
                        (if \<not> isApiKeyAuthError (message e)
                         then showErrorMessage (''Claude Code query failed: '' @ errorString e) w2
                         else w2),
                        delivered)))))"

section \<open>Notions used to state the properties\<close>

text \<open>The messages a stream yields before it stops, and the error it stops with.\<close>

fun streamItems :: "sdkStream \<Rightarrow> jsobject list" where
  "streamItems StreamEnd = []"
| "streamItems (StreamThrow e) = []"
| "streamItems (StreamYield m rest) = m # streamItems rest"

fun streamError :: "sdkStream \<Rightarrow> error option" where
  "streamError StreamEnd = None"
| "streamError (StreamThrow e) = Some e"
| "streamError (StreamYield m rest) = streamError rest"

text \<open>
  The session id is \<^verbatim>\<open>null\<close> or a truthy value: it starts as \<^verbatim>\<open>null\<close>, is reset to
  \<^verbatim>\<open>null\<close>, and is otherwise only assigned a truthy \<^verbatim>\<open>session_id\<close>.
\<close>

definition sessionIdWellFormed :: "service \<Rightarrow> bool" where
  "sessionIdWellFormed s = (currentSessionId s = JNull \<or> truthy (currentSessionId s))"

text \<open>The value of the caller's \<^verbatim>\<open>resume\<close> override, if the caller gave one.\<close>

definition callerResume :: "(string \<rightharpoonup> jsval) option \<Rightarrow> jsval option" where
  "callerResume options0 = (case options0 of None \<Rightarrow> None | Some opts \<Rightarrow> opts ''resume'')"

text \<open>The tags the translation has a branch for.\<close>

definition recognizedTags :: "jsval list" where
  "recognizedTags =
     [JStr ''text'', JStr ''tool_use'', JStr ''tool_result'', JStr ''assistant'', JStr ''result'']"

text \<open>
  The directory the setup aims at: the subfolder of the project root, or of the temporary
  directory when no project root is open.
\<close>

definition setupTarget :: "environment \<Rightarrow> string" where
  "setupTarget env =
     (case workspaceRoot env of
        None \<Rightarrow> pathJoin env (tmpdir env) ''superdesign-claude''
      | Some root \<Rightarrow>
          (if root = [] then pathJoin env (tmpdir env) ''superdesign-claude''
           else pathJoin env root ''.superdesign''))"



text \<open>
  The resume token of a call to the SDK: its \<^verbatim>\<open>resume\<close> option when that is truthy (the
  service itself reads it as \<^verbatim>\<open>options.resume || 'none'\<close>).
\<close>

definition resumeToken :: "queryParams \<Rightarrow> jsval option" where
  "resumeToken params =
     (case qp_options params ''resume'' of
        None \<Rightarrow> None
      | Some v \<Rightarrow> (if truthy v then Some v else None))"

subsection \<open>The flattening as the specification words it\<close>

text \<open>
  Each turn is rendered as role, colon, space, content; a string content is used as it
  is; in a multi-part content a text part stands for its text and any other part for its
  type in brackets; the turns are joined with blank lines.
\<close>

definition spec_part :: "part \<Rightarrow> string" where
  "spec_part p =
     (if partType p = ''text'' then (case partText p of Some t \<Rightarrow> t | None \<Rightarrow> [])
      else CHR ''['' # partType p @ [CHR '']''])"

fun spec_content :: "messageContent \<Rightarrow> string" where
  "spec_content (StringContent str) = str"
| "spec_content (ArrayContent parts) = concat (map spec_part parts)"
| "spec_content OtherContent = []"

definition spec_turn :: "conversationMessage \<Rightarrow> string" where
  "spec_turn t = msgRole t @ [CHR '':'', CHR '' ''] @ spec_content (msgContent t)"

fun spec_flatten :: "conversationMessage list \<Rightarrow> string" where
  "spec_flatten [] = []"
| "spec_flatten (t # ts) =
     foldl (\<lambda>acc u. acc @ [CHR 0x0A, CHR 0x0A] @ spec_turn u) (spec_turn t) ts"

subsection \<open>A concrete installation\<close>

text \<open>An SDK whose stream reports a session id and then answers with a text.\<close>

definition demoInitMessage :: jsobject where
  "demoInitMessage = [(''type'', JStr ''system''), (''session_id'', JStr ''S1'')]"

definition demoTextMessage :: jsobject where
  "demoTextMessage = [(''type'', JStr ''text''), (''text'', JStr ''hello'')]"

definition demoSdk :: queryFunction where
  "demoSdk params = StreamYield demoInitMessage (StreamYield demoTextMessage StreamEnd)"

text \<open>An SDK whose stream reports a session id and then breaks.\<close>

definition brokenSdk :: queryFunction where
  "brokenSdk params =
     StreamYield [(''type'', JStr ''system''), (''session_id'', JStr ''S2'')]
       (StreamThrow (Error ''connection reset''))"

definition demoDirname :: "string \<Rightarrow> string" where
  "demoDirname p = rev (tl (dropWhile (\<lambda>c. c \<noteq> CHR ''/'') (rev p)))"

definition demoJoin :: "string \<Rightarrow> string \<Rightarrow> string" where
  "demoJoin d f = d @ ''/'' @ f"

definition noError :: "string \<Rightarrow> error option" where
  "noError p = None"

definition noLocalModule :: "string \<Rightarrow> error + sdkModule" where
  "noLocalModule p = Inl (Error ''Cannot find module'')"

definition demoClaudeMd :: "string \<Rightarrow> string" where
  "demoClaudeMd directory = ''# SUPERDESIGN UI DESIGN SYSTEM '' @ directory"

definition demoSystemPrompt :: "string \<Rightarrow> string" where
  "demoSystemPrompt directory = ''# Role '' @ directory"

definition demoStringify :: "jsval \<Rightarrow> string" where
  "demoStringify v = ''{}''"

definition demoEnv :: environment where
  "demoEnv =
     \<lparr>workspaceRoot = Some ''/ws'', tmpdir = ''/tmp'', cwd = Inr ''/home'',
      pathJoin = demoJoin, pathDirname = demoDirname, anthropicApiKey = None,
      mkdirError = noError, writeError = noError, statError = noError,
      possiblePaths = [], importFile = noLocalModule, importPackage = Inr (Some demoSdk),
      claudeMdContent = demoClaudeMd, systemPrompt = demoSystemPrompt,
      jsonStringify = demoStringify\<rparr>"

text \<open>The same installation with no project root open, and with the breaking SDK.\<close>

definition tempEnv :: environment where
  "tempEnv = demoEnv\<lparr>workspaceRoot := None\<rparr>"

definition brokenEnv :: environment where
  "brokenEnv = demoEnv\<lparr>importPackage := Inr (Some brokenSdk)\<rparr>"

text \<open>
  The same installation on a project root that cannot be written to, and that once more
  in a process whose current directory has been removed.
\<close>

definition readOnly :: "string \<Rightarrow> error option" where
  "readOnly p = Some (Error ''EACCES: permission denied, mkdir'')"

definition readOnlyEnv :: environment where
  "readOnlyEnv = demoEnv\<lparr>mkdirError := readOnly\<rparr>"

definition lostEnv :: environment where
  "lostEnv = readOnlyEnv\<lparr>cwd := Inl (Error ''ENOENT: no such file or directory, uv_cwd'')\<rparr>"

definition noFiles :: "string \<rightharpoonup> fsnode" where
  "noFiles p = None"

definition demoWorld :: world where
  "demoWorld = \<lparr>fs = noFiles, notifications = [], envApiKey = None, sdkCalls = []\<rparr>"

text \<open>A world in which the user already keeps a \<^verbatim>\<open>CLAUDE.md\<close> of their own.\<close>

definition userWorld :: world where
  "userWorld =
     demoWorld\<lparr>fs := (noFiles(''/ws/.superdesign'' \<mapsto> Directory))
                        (''/ws/.superdesign/CLAUDE.md'' \<mapsto> File ''my own notes'')\<rparr>"

text \<open>A service that has adopted the session id \<^verbatim>\<open>S1\<close>.\<close>

definition resumedService :: service where
  "resumedService = newService\<lparr>currentSessionId := JStr ''S1''\<rparr>"

definition resumeOverride :: "string \<rightharpoonup> jsval" where
  "resumeOverride = (\<lambda>key. if key = ''resume'' then Some (JStr ''X'') else None)"

definition maxTurnsOverride :: "string \<rightharpoonup> jsval" where
  "maxTurnsOverride = (\<lambda>key. if key = ''maxTurns'' then Some (JNum 5) else None)"

definition demoSink :: sink where
  "demoSink coreMsg = None"

definition emptyTextMessage :: jsobject where
  "emptyTextMessage = [(''type'', JStr ''text''), (''text'', JStr [])]"

definition bogusMessage :: jsobject where
  "bogusMessage = [(''type'', JStr ''bogus'')]"

definition demoHistory :: "conversationMessage list" where
  "demoHistory =
     [\<lparr>msgRole = ''user'', msgContent = StringContent ''hi''\<rparr>,
      \<lparr>msgRole = ''assistant'', msgContent = StringContent ''hello''\<rparr>]"

definition partsHistory :: "conversationMessage list" where
  "partsHistory =
     [\<lparr>msgRole = ''user'',
       msgContent = ArrayContent [\<lparr>partType = ''text'', partText = Some ''see ''\<rparr>,
                                  \<lparr>partType = ''image'', partText = None\<rparr>]\<rparr>]"

section \<open>Properties\<close>

subsection \<open>The authentication-error classifier\<close>


lemma startsWith_iff: "startsWith s p \<longleftrightarrow> (\<exists>b. s = p @ b)"
  by (induction s p rule: startsWith.induct) auto

lemma js_includes_iff: "js_includes s p \<longleftrightarrow> (\<exists>a b. s = a @ p @ b)"
proof (induction s)
  case Nil
  then show ?case by (cases p) auto
next
  case (Cons c cs)
  show ?case
  proof
    assume "js_includes (c # cs) p"
    then consider "startsWith (c # cs) p" | "js_includes cs p" by auto
    then show "\<exists>a b. c # cs = a @ p @ b"
    proof cases
      case 1
      then obtain b where "c # cs = p @ b" by (auto simp: startsWith_iff)
      then have "c # cs = [] @ p @ b" by simp
      then show ?thesis by blast
    next
      case 2
      then obtain a b where "cs = a @ p @ b" using Cons.IH by auto
      then have "c # cs = (c # a) @ p @ b" by simp
      then show ?thesis by blast
    qed
  next
    assume "\<exists>a b. c # cs = a @ p @ b"
    then obtain a b where ab: "c # cs = a @ p @ b" by auto
    show "js_includes (c # cs) p"
    proof (cases a)
      case Nil
      with ab have "startsWith (c # cs) p" by (auto simp: startsWith_iff)
      then show ?thesis by simp
    next
      case (Cons x a')
      with ab have "cs = a' @ p @ b" by simp
      then have "js_includes cs p" using Cons.IH by blast
      then show ?thesis by simp
    qed
  qed
qed

lemma toLowerChar_not_capital:
  "of_char (toLowerChar c) < (65::nat) \<or> (90::nat) < of_char (toLowerChar c)"
  by (auto simp: toLowerChar_def Let_def)

lemma toLowerCase_no_capital_A: "CHR ''A'' \<notin> set (toLowerCase s)"
proof
  assume "CHR ''A'' \<in> set (toLowerCase s)"
  then obtain c where "toLowerChar c = CHR ''A''" by (auto simp: toLowerCase_def)
  then have "of_char (toLowerChar c) = (65::nat)" by simp
  then show False using toLowerChar_not_capital [of c] by simp
qed

lemma env_var_pattern_never_matches:
  "\<not> js_includes (toLowerCase s) ''ANTHROPIC_API_KEY''"
proof
  assume "js_includes (toLowerCase s) ''ANTHROPIC_API_KEY''"
  then obtain a b where "toLowerCase s = a @ ''ANTHROPIC_API_KEY'' @ b"
    by (auto simp: js_includes_iff)
  then have "CHR ''A'' \<in> set (toLowerCase s)" by simp
  then show False using toLowerCase_no_capital_A by blast
qed

lemma isApiKeyAuthError_lowercase_patterns:
  "isApiKeyAuthError s = list_ex (js_includes (toLowerCase s)) (butlast authErrorPatterns)"
  by (simp add: isApiKeyAuthError_def authErrorPatterns_def env_var_pattern_never_matches Let_def)

lemma isApiKeyAuthError_401: "isApiKeyAuthError ''Error: 401 Unauthorized''"
  by code_simp

lemma isApiKeyAuthError_disk_full: "\<not> isApiKeyAuthError ''disk full''"
  by code_simp

text \<open>
  C4: a message that names the API-key environment variable is meant to be classified as
  an authentication error, in any letter case. The message is lower-cased but the pattern
  \<^verbatim>\<open>ANTHROPIC_API_KEY\<close> is not, so the pattern never matches
  (\<open>env_var_pattern_never_matches\<close>) and the code answers \<^verbatim>\<open>false\<close> on such a
  message. The other patterns classify as the claim says (\<open>isApiKeyAuthError_401\<close>,
  \<open>isApiKeyAuthError_disk_full\<close>).
\<close>

theorem isApiKeyAuthError_env_var_name_missed:
  "isApiKeyAuthError ''ANTHROPIC_API_KEY is not set'' = False"
  by code_simp

subsection \<open>Workspace setup\<close>

lemma mkdirSync_keeps:
  "mkdirSync env p w = (r, w') \<Longrightarrow> fs w p = None \<Longrightarrow> fs w q \<noteq> None \<Longrightarrow> fs w' q = fs w q"
  by (auto simp: mkdirSync_def split: option.splits)

lemma createClaudeMdFile_keeps:
  "createClaudeMdFile env dir w = (r, w') \<Longrightarrow> fs w q \<noteq> None \<Longrightarrow> fs w' q = fs w q"
  by (auto simp: createClaudeMdFile_def existsSync_def Let_def split: option.splits if_splits)

lemma useDirectory_keeps:
  assumes "useDirectory env dir s w = (r, s', w')" and "fs w q \<noteq> None"
  shows "fs w' q = fs w q"
proof (cases "existsSync w dir")
  case True
  with assms(1) obtain r2 where "createClaudeMdFile env dir w = (r2, w')"
    by (auto simp: useDirectory_def Let_def split: prod.splits)
  then show ?thesis using assms(2) by (rule createClaudeMdFile_keeps)
next
  case False
  then have absent: "fs w dir = None" by (simp add: existsSync_def)
  obtain r1 w1 where mk: "mkdirSync env dir w = (r1, w1)" by (cases "mkdirSync env dir w")
  have keep1: "fs w1 q = fs w q" using mk absent assms(2) by (rule mkdirSync_keeps)
  show ?thesis
  proof (cases r1)
    case None
    with assms(1) False mk obtain r2 where "createClaudeMdFile env dir w1 = (r2, w')"
      by (auto simp: useDirectory_def Let_def split: prod.splits)
    then have "fs w' q = fs w1 q"
      using assms(2) keep1 createClaudeMdFile_keeps [of env dir w1 r2 w' q] by simp
    then show ?thesis using keep1 by simp
  next
    case (Some e)
    with assms(1) False mk have "w' = w1" by (simp add: useDirectory_def)
    then show ?thesis using keep1 by simp
  qed
qed

lemma useDirectory_workingDirectory:
  "useDirectory env dir s w = (None, s', w') \<Longrightarrow> workingDirectory s' = dir"
  by (auto simp: useDirectory_def Let_def split: option.splits if_splits prod.splits)

lemma useDirectory_currentSessionId:
  "useDirectory env dir s w = (r, s', w') \<Longrightarrow> currentSessionId s' = currentSessionId s"
  by (auto simp: useDirectory_def Let_def split: option.splits if_splits prod.splits)


lemma setupWorkingDirectory_try_keeps:
  assumes "setupWorkingDirectory_try env s w = (r, s', w')" and "fs w q \<noteq> None"
  shows "fs w' q = fs w q"
proof (cases "truthyString (workspaceRoot env)")
  case True
  then obtain root where "workspaceRoot env = Some root" by (auto simp: truthyString_def split: option.splits)
  with True assms(1) have "useDirectory env (pathJoin env root ''.superdesign'') s w = (r, s', w')"
    by (simp add: setupWorkingDirectory_try_def)
  then show ?thesis using assms(2) by (rule useDirectory_keeps)
next
  case False
  obtain r1 s1 w1 where u: "useDirectory env (pathJoin env (tmpdir env) ''superdesign-claude'') s w = (r1, s1, w1)"
    by (cases "useDirectory env (pathJoin env (tmpdir env) ''superdesign-claude'') s w") auto
  have k: "fs w1 q = fs w q" using u assms(2) by (rule useDirectory_keeps)
  have "fs w' = fs w1" using assms(1) False u
    by (cases r1) (auto simp: setupWorkingDirectory_try_def showWarningMessage_def)
  then show ?thesis using k by simp
qed

lemma setupWorkingDirectory_try_target:
  "setupWorkingDirectory_try env s w = (None, s', w') \<Longrightarrow> workingDirectory s' = setupTarget env"
  by (auto simp: setupWorkingDirectory_try_def setupTarget_def truthyString_def
      split: option.splits if_splits prod.splits dest: useDirectory_workingDirectory)

lemma setupWorkingDirectory_try_currentSessionId:
  "setupWorkingDirectory_try env s w = (r, s', w') \<Longrightarrow> currentSessionId s' = currentSessionId s"
  by (auto simp: setupWorkingDirectory_try_def
      split: option.splits if_splits prod.splits dest: useDirectory_currentSessionId)








lemma setupWorkingDirectory_keeps:
  assumes "setupWorkingDirectory env s w = (r, s', w')" and "fs w q \<noteq> None"
  shows "fs w' q = fs w q"
proof -
  obtain r1 s1 w1 where t: "setupWorkingDirectory_try env s w = (r1, s1, w1)"
    by (cases "setupWorkingDirectory_try env s w") auto
  then have "fs w1 q = fs w q" using assms(2) by (rule setupWorkingDirectory_try_keeps)
  moreover have "w' = w1"
    using assms(1) t by (cases r1) (auto simp: setupWorkingDirectory_def split: sum.splits)
  ultimately show ?thesis by simp
qed


lemmas setup_defs = setupWorkingDirectory_def setupWorkingDirectory_try_def useDirectory_def
  createClaudeMdFile_def mkdirSync_def existsSync_def truthyString_def showWarningMessage_def
  Let_def

lemmas place_defs = demoEnv_def tempEnv_def readOnlyEnv_def lostEnv_def demoWorld_def
  userWorld_def noFiles_def noError_def readOnly_def demoJoin_def



text \<open>A second setup leaves what the first one left, the configuration file included.\<close>

lemma second_setup_keeps_files:
  assumes "setupWorkingDirectory env s w = (r1, s1, w1)"
    and "setupWorkingDirectory env2 s1 w1 = (r2, s2, w2)"
    and "fs w1 q \<noteq> None"
  shows "fs w2 q = fs w1 q"
  using assms(2,3) by (rule setupWorkingDirectory_keeps)

text \<open>
  With no project root open, setup works under the temporary directory, creates the
  configuration file and warns; a second setup finds the file and leaves it.
\<close>

lemma setup_without_project_root:
  "workingDirectory (fst (snd (setupWorkingDirectory tempEnv newService demoWorld)))
     = ''/tmp/superdesign-claude'' \<and>
   fs (snd (snd (setupWorkingDirectory tempEnv newService demoWorld)))
      ''/tmp/superdesign-claude/CLAUDE.md''
     = Some (File (demoClaudeMd ''/tmp/superdesign-claude'')) \<and>
   fs (snd (snd (setupWorkingDirectory tempEnv
          (fst (snd (setupWorkingDirectory tempEnv newService demoWorld)))
          (snd (snd (setupWorkingDirectory tempEnv newService demoWorld))))))
     = fs (snd (snd (setupWorkingDirectory tempEnv newService demoWorld)))"
  by (simp add: setup_defs place_defs)

text \<open>
  A project root that cannot be written to sends the setup to the current directory; the
  temporary directory is not tried, and no configuration file is written.
\<close>

lemma setup_on_read_only_root:
  "setupWorkingDirectory readOnlyEnv newService demoWorld
     = (None, newService\<lparr>workingDirectory := ''/home''\<rparr>, demoWorld)"
  by (simp add: setup_defs place_defs)

subsection \<open>Adopting a session id\<close>

lemma truthy_session_id:
  "(hasProp m k \<and> truthy (getProp m k)) = truthy (getProp m k)"
  by (auto simp: hasProp_def getProp_def split: option.splits)

lemma truthy_hasProp: "truthy (getProp m k) \<Longrightarrow> hasProp m k"
  by (auto simp: hasProp_def getProp_def split: option.splits)

lemma find_append_cases:
  "find P (xs @ ys) = (case find P xs of None \<Rightarrow> find P ys | Some x \<Rightarrow> Some x)"
  by (induction xs) auto

lemma find_none: "(\<forall>x\<in>set xs. \<not> P x) \<Longrightarrow> find P xs = None"
  by (induction xs) auto

lemma lastMessageWithSessionId_last:
  assumes "truthy (getProp m ''session_id'')"
    and "\<forall>y\<in>set ys. \<not> truthy (getProp y ''session_id'')"
  shows "lastMessageWithSessionId (xs @ m # ys) = Some m"
proof -
  have "find (\<lambda>m. truthy (getProp m ''session_id'')) (rev ys) = None"
    using assms(2) by (intro find_none) simp
  then show ?thesis
    using assms(1)
    by (simp add: lastMessageWithSessionId_def truthy_session_id find_append_cases)
qed

lemma lastMessageWithSessionId_none:
  assumes "\<forall>y\<in>set ms. \<not> truthy (getProp y ''session_id'')"
  shows "lastMessageWithSessionId ms = None"
  using assms by (simp add: lastMessageWithSessionId_def truthy_session_id find_none)

lemma adoptSessionId_last:
  assumes "truthy (getProp m ''session_id'')"
    and "\<forall>y\<in>set ys. \<not> truthy (getProp y ''session_id'')"
  shows "adoptSessionId (xs @ m # ys) s = s\<lparr>currentSessionId := getProp m ''session_id''\<rparr>"
  using assms by (simp add: adoptSessionId_def lastMessageWithSessionId_last truthy_hasProp)

lemma adoptSessionId_none:
  assumes "\<forall>y\<in>set ms. \<not> truthy (getProp y ''session_id'')"
  shows "adoptSessionId ms s = s"
  using assms by (simp add: adoptSessionId_def lastMessageWithSessionId_none)

lemma adoptSessionId_cases:
  "adoptSessionId ms s = s \<or>
   (\<exists>v. truthy v \<and> adoptSessionId ms s = s\<lparr>currentSessionId := v\<rparr>)"
  by (auto simp: adoptSessionId_def split: option.splits)

lemma adoptSessionId_claudeCodeQuery:
  "claudeCodeQuery (adoptSessionId ms s) = claudeCodeQuery s"
  by (auto simp: adoptSessionId_def split: option.splits)

lemma adoptSessionId_wellFormed:
  "sessionIdWellFormed s \<Longrightarrow> sessionIdWellFormed (adoptSessionId ms s)"
  using adoptSessionId_cases [of ms s] by (auto simp: sessionIdWellFormed_def)

subsection \<open>The loop\<close>

lemma consume_eq:
  "consume env k st acc d =
     (streamError st, acc @ streamItems st, d @ concat (map (deliver env k) (streamItems st)))"
  by (induction st arbitrary: acc d) auto

subsection \<open>Initialization leaves the session id and the SDK calls alone\<close>

lemma mkdirSync_sdkCalls: "mkdirSync env p w = (r, w') \<Longrightarrow> sdkCalls w' = sdkCalls w"
  by (auto simp: mkdirSync_def split: option.splits)

lemma createClaudeMdFile_sdkCalls:
  "createClaudeMdFile env dir w = (r, w') \<Longrightarrow> sdkCalls w' = sdkCalls w"
  by (auto simp: createClaudeMdFile_def Let_def split: option.splits if_splits)

lemma useDirectory_sdkCalls:
  assumes "useDirectory env dir s w = (r, s', w')"
  shows "sdkCalls w' = sdkCalls w"
proof -
  obtain r1 w1 where mk: "(if \<not> existsSync w dir then mkdirSync env dir w else (None, w)) = (r1, w1)"
    by (cases "if \<not> existsSync w dir then mkdirSync env dir w else (None, w)")
  then have c1: "sdkCalls w1 = sdkCalls w"
    by (auto split: if_splits dest: mkdirSync_sdkCalls)
  show ?thesis
  proof (cases r1)
    case None
    with assms mk obtain r2 where "createClaudeMdFile env dir w1 = (r2, w')"
      by (auto simp: useDirectory_def Let_def split: prod.splits)
    then show ?thesis using c1 by (auto dest: createClaudeMdFile_sdkCalls)
  next
    case (Some e)
    with assms mk have "w' = w1" by (simp add: useDirectory_def)
    then show ?thesis using c1 by simp
  qed
qed

lemma useDirectory_session:
  "useDirectory env dir s w = (r, s', w') \<Longrightarrow> currentSessionId s' = currentSessionId s"
  by (auto simp: useDirectory_def Let_def split: option.splits if_splits prod.splits)

lemma setupWorkingDirectory_try_unrelated:
  assumes "setupWorkingDirectory_try env s w = (r, s', w')"
  shows "currentSessionId s' = currentSessionId s \<and> sdkCalls w' = sdkCalls w"
proof (cases "truthyString (workspaceRoot env)")
  case True
  then obtain root where "workspaceRoot env = Some root"
    by (auto simp: truthyString_def split: option.splits)
  with True assms have "useDirectory env (pathJoin env root ''.superdesign'') s w = (r, s', w')"
    by (simp add: setupWorkingDirectory_try_def)
  then show ?thesis by (auto dest: useDirectory_session useDirectory_sdkCalls)
next
  case False
  obtain r1 s1 w1
    where u: "useDirectory env (pathJoin env (tmpdir env) ''superdesign-claude'') s w = (r1, s1, w1)"
    by (cases "useDirectory env (pathJoin env (tmpdir env) ''superdesign-claude'') s w") auto
  have "currentSessionId s1 = currentSessionId s" "sdkCalls w1 = sdkCalls w"
    using u by (auto dest: useDirectory_session useDirectory_sdkCalls)
  moreover have "s' = s1 \<and> sdkCalls w' = sdkCalls w1"
    using assms False u
    by (cases r1) (auto simp: setupWorkingDirectory_try_def showWarningMessage_def)
  ultimately show ?thesis by simp
qed

lemma setupWorkingDirectory_unrelated:
  assumes "setupWorkingDirectory env s w = (r, s', w')"
  shows "currentSessionId s' = currentSessionId s \<and> sdkCalls w' = sdkCalls w"
proof -
  obtain r1 s1 w1 where t: "setupWorkingDirectory_try env s w = (r1, s1, w1)"
    by (cases "setupWorkingDirectory_try env s w") auto
  then have "currentSessionId s1 = currentSessionId s \<and> sdkCalls w1 = sdkCalls w"
    by (rule setupWorkingDirectory_try_unrelated)
  then show ?thesis using assms t
    by (cases r1) (auto simp: setupWorkingDirectory_def split: sum.splits)
qed

lemma initialize_try_unrelated:
  assumes "initialize_try env s w = (r, s', w')"
  shows "currentSessionId s' = currentSessionId s \<and> sdkCalls w' = sdkCalls w"
proof -
  obtain r1 s1 w1 where t: "setupWorkingDirectory env s w = (r1, s1, w1)"
    by (cases "setupWorkingDirectory env s w") auto
  then have "currentSessionId s1 = currentSessionId s \<and> sdkCalls w1 = sdkCalls w"
    by (rule setupWorkingDirectory_unrelated)
  then show ?thesis using assms t
    by (cases r1) (auto simp: initialize_try_def Let_def split: sum.splits if_splits)
qed

lemma initialize_unrelated:
  assumes "initialize env s w = (r, s', w')"
  shows "currentSessionId s' = currentSessionId s \<and> sdkCalls w' = sdkCalls w"
proof (cases "isInitialized s")
  case True
  then show ?thesis using assms by (simp add: initialize_def)
next
  case False
  obtain r1 s1 w1 where t: "initialize_try env s w = (r1, s1, w1)"
    by (cases "initialize_try env s w") auto
  then have "currentSessionId s1 = currentSessionId s \<and> sdkCalls w1 = sdkCalls w"
    by (rule initialize_try_unrelated)
  then show ?thesis using assms t False
    by (cases r1) (auto simp: initialize_def showErrorMessage_def)
qed

lemma awaitInitialize_unrelated:
  assumes "awaitInitialize env s w = (r, s', w')"
  shows "currentSessionId s' = currentSessionId s \<and> sdkCalls w' = sdkCalls w"
proof -
  obtain r1 s1 w1
    where t: "initialize env (s\<lparr>initializationPromise := Some Pending\<rparr>) w = (r1, s1, w1)"
    by (cases "initialize env (s\<lparr>initializationPromise := Some Pending\<rparr>) w") auto
  then have "currentSessionId s1 = currentSessionId (s\<lparr>initializationPromise := Some Pending\<rparr>)
      \<and> sdkCalls w1 = sdkCalls w"
    by (rule initialize_unrelated)
  then show ?thesis using assms t by (cases r1) (auto simp: awaitInitialize_def)
qed

lemma ensureInitialized_unrelated:
  assumes "ensureInitialized env s w = (r, s', w')"
  shows "currentSessionId s' = currentSessionId s \<and> sdkCalls w' = sdkCalls w"
proof -
  obtain r1 s1 w1
    where a: "(if initializationPromise s = Some Pending then awaitInitialize env s w
               else (None, s, w)) = (r1, s1, w1)"
    by (cases "if initializationPromise s = Some Pending then awaitInitialize env s w
               else (None, s, w)") auto
  then have u1: "currentSessionId s1 = currentSessionId s \<and> sdkCalls w1 = sdkCalls w"
    by (auto split: if_splits dest: awaitInitialize_unrelated)
  show ?thesis
  proof (cases r1)
    case (Some e)
    then show ?thesis using assms a u1 by (simp add: ensureInitialized_def)
  next
    case None
    show ?thesis
    proof (cases "(\<not> isInitialized s1 \<or> claudeCodeQuery s1 = None) \<and> initializationPromise s1 = None")
      case True
      with assms a None have "awaitInitialize env s1 w1 = (r, s', w')"
        by (auto simp: ensureInitialized_def)
      then have "currentSessionId s' = currentSessionId s1 \<and> sdkCalls w' = sdkCalls w1"
        by (rule awaitInitialize_unrelated)
      then show ?thesis using u1 by simp
    next
      case False
      with assms a None have "s' = s1 \<and> w' = w1"
        by (auto simp: ensureInitialized_def split: if_splits)
      then show ?thesis using u1 by simp
    qed
  qed
qed

subsection \<open>What a call of \<open>query\<close> does\<close>

lemma query_try_cases:
  assumes "query_try env s w pr opts ab k = (r, s', w', d)"
  shows "(s' = s \<and> w' = w \<and> d = [] \<and> (\<exists>e. r = Inl e)) \<or>
         (\<exists>q. claudeCodeQuery s = Some q \<and>
            w' = w\<lparr>sdkCalls := sdkCalls w @ [makeQueryParams env s pr opts ab]\<rparr> \<and>
            d = concat (map (deliver env k) (streamItems (q (makeQueryParams env s pr opts ab)))) \<and>
            (case streamError (q (makeQueryParams env s pr opts ab)) of
               Some e \<Rightarrow> r = Inl e \<and> s' = s
             | None \<Rightarrow> r = Inr (streamItems (q (makeQueryParams env s pr opts ab))) \<and>
                        s' = adoptSessionId (streamItems (q (makeQueryParams env s pr opts ab))) s))"
  using assms
  by (auto simp: query_try_def Let_def consume_eq split: option.splits)

lemma query_cases:
  assumes "query env s w p h opts ab k = (r, s', w', d)"
  shows "(r = Inl MissingPrompt \<and> s' = s \<and> w' = w \<and> d = []) \<or>
         (\<exists>e. r = Inl e \<and> currentSessionId s' = currentSessionId s \<and> sdkCalls w' = sdkCalls w \<and> d = []) \<or>
         (\<exists>pr s1 w1 w2.
            effectivePrompt p h = Some pr \<and> pr \<noteq> [] \<and>
            ensureInitialized env s w = (None, s1, w1) \<and>
            query_try env s1 w1 pr opts ab k = (r, s', w2, d) \<and>
            sdkCalls w' = sdkCalls w2)"
proof (cases "effectivePrompt p h")
  case None
  then show ?thesis using assms by (simp add: query_def)
next
  case (Some pr)
  show ?thesis
  proof (cases "pr = []")
    case True
    then show ?thesis using assms Some by (simp add: query_def)
  next
    case False
    obtain r1 s1 w1 where e: "ensureInitialized env s w = (r1, s1, w1)"
      by (cases "ensureInitialized env s w") auto
    then have u: "currentSessionId s1 = currentSessionId s \<and> sdkCalls w1 = sdkCalls w"
      by (rule ensureInitialized_unrelated)
    show ?thesis
    proof (cases r1)
      case (Some err)
      then show ?thesis using assms \<open>effectivePrompt p h = Some pr\<close> False e u
        by (auto simp: query_def)
    next
      case None
      obtain r2 s2 w2 d2 where t: "query_try env s1 w1 pr opts ab k = (r2, s2, w2, d2)"
        by (cases "query_try env s1 w1 pr opts ab k") auto
      have "r = r2 \<and> s' = s2 \<and> d = d2 \<and> sdkCalls w' = sdkCalls w2"
        using assms \<open>effectivePrompt p h = Some pr\<close> False e None t
        by (cases r2) (auto simp: query_def showErrorMessage_def)
      then show ?thesis using \<open>effectivePrompt p h = Some pr\<close> False e None t by auto
    qed
  qed
qed

text \<open>If the call reached the SDK, these are the parameters it passed and what followed.\<close>

lemma query_reaching_sdk:
  assumes "query env s w p h opts ab k = (r, s', w', d)"
    and "sdkCalls w' = sdkCalls w @ [params]"
  shows "\<exists>pr s1 q.
           effectivePrompt p h = Some pr \<and> pr \<noteq> [] \<and>
           currentSessionId s1 = currentSessionId s \<and>
           params = makeQueryParams env s1 pr opts ab \<and>
           claudeCodeQuery s1 = Some q \<and> claudeCodeQuery s' = Some q \<and>
           d = concat (map (deliver env k) (streamItems (q params))) \<and>
           (case streamError (q params) of
              Some e \<Rightarrow> r = Inl e \<and> s' = s1
            | None \<Rightarrow> r = Inr (streamItems (q params)) \<and>
                       s' = adoptSessionId (streamItems (q params)) s1)"
proof -
  from query_cases [OF assms(1)] assms(2)
  obtain pr s1 w1 w2 where
    pr: "effectivePrompt p h = Some pr" "pr \<noteq> []" and
    e: "ensureInitialized env s w = (None, s1, w1)" and
    t: "query_try env s1 w1 pr opts ab k = (r, s', w2, d)" and
    c: "sdkCalls w' = sdkCalls w2"
    by auto
  have u: "currentSessionId s1 = currentSessionId s" "sdkCalls w1 = sdkCalls w"
    using ensureInitialized_unrelated [OF e] by auto
  let ?ps = "makeQueryParams env s1 pr opts ab"
  from query_try_cases [OF t] c u(2) assms(2)
  obtain q where q: "claudeCodeQuery s1 = Some q"
    and w2: "w2 = w1\<lparr>sdkCalls := sdkCalls w1 @ [?ps]\<rparr>"
    and d: "d = concat (map (deliver env k) (streamItems (q ?ps)))"
    and r: "(case streamError (q ?ps) of
               Some e \<Rightarrow> r = Inl e \<and> s' = s1
             | None \<Rightarrow> r = Inr (streamItems (q ?ps)) \<and> s' = adoptSessionId (streamItems (q ?ps)) s1)"
    by auto
  have params: "params = ?ps" using w2 c u(2) assms(2) by simp
  have "claudeCodeQuery s' = Some q"
    using r q by (auto simp: adoptSessionId_claudeCodeQuery split: option.splits)
  then show ?thesis using pr u(1) params q d r by blast
qed

text \<open>If the call returned messages, it reached the SDK, whose stream ended normally.\<close>

lemma query_returning:
  assumes "query env s w p h opts ab k = (Inr msgs, s', w', d)"
  shows "\<exists>pr s1 q params.
           effectivePrompt p h = Some pr \<and> pr \<noteq> [] \<and>
           currentSessionId s1 = currentSessionId s \<and>
           params = makeQueryParams env s1 pr opts ab \<and>
           sdkCalls w' = sdkCalls w @ [params] \<and>
           claudeCodeQuery s' = Some q \<and>
           streamError (q params) = None \<and> streamItems (q params) = msgs \<and>
           s' = adoptSessionId msgs s1"
proof -
  from query_cases [OF assms]
  obtain pr s1 w1 w2 where
    pr: "effectivePrompt p h = Some pr" "pr \<noteq> []" and
    e: "ensureInitialized env s w = (None, s1, w1)" and
    t: "query_try env s1 w1 pr opts ab k = (Inr msgs, s', w2, d)" and
    c: "sdkCalls w' = sdkCalls w2"
    by auto
  have u: "currentSessionId s1 = currentSessionId s" "sdkCalls w1 = sdkCalls w"
    using ensureInitialized_unrelated [OF e] by auto
  let ?ps = "makeQueryParams env s1 pr opts ab"
  from query_try_cases [OF t]
  obtain q where q: "claudeCodeQuery s1 = Some q"
    and w2: "w2 = w1\<lparr>sdkCalls := sdkCalls w1 @ [?ps]\<rparr>"
    and r: "(case streamError (q ?ps) of
               Some e \<Rightarrow> Inr msgs = (Inl e :: error + jsobject list) \<and> s' = s1
             | None \<Rightarrow> Inr msgs = (Inr (streamItems (q ?ps)) :: error + jsobject list) \<and>
                        s' = adoptSessionId (streamItems (q ?ps)) s1)"
    by auto
  from r have ok: "streamError (q ?ps) = None" "streamItems (q ?ps) = msgs"
      "s' = adoptSessionId msgs s1"
    by (auto split: option.splits)
  have "claudeCodeQuery s' = Some q" using ok(3) q by (simp add: adoptSessionId_claudeCodeQuery)
  moreover have "sdkCalls w' = sdkCalls w @ [?ps]" using c w2 u(2) by simp
  ultimately show ?thesis using pr u(1) ok by blast
qed

lemma sessionIdWellFormed_newService: "sessionIdWellFormed newService"
  by (simp add: sessionIdWellFormed_def newService_def)

lemma sessionIdWellFormed_clearSession: "sessionIdWellFormed (clearSession s)"
  by (simp add: sessionIdWellFormed_def clearSession_def)

lemma query_keeps_wellFormed:
  assumes "query env s w p h opts ab k = (r, s', w', d)" and "sessionIdWellFormed s"
  shows "sessionIdWellFormed s'"
proof -
  from query_cases [OF assms(1)]
  consider "s' = s" | "currentSessionId s' = currentSessionId s"
    | pr s1 w1 w2 where "ensureInitialized env s w = (None, s1, w1)"
        "query_try env s1 w1 pr opts ab k = (r, s', w2, d)"
    by blast
  then show ?thesis
  proof cases
    case 1
    then show ?thesis using assms(2) by simp
  next
    case 2
    then show ?thesis using assms(2) by (simp add: sessionIdWellFormed_def)
  next
    case 3
    have "sessionIdWellFormed s1"
      using ensureInitialized_unrelated [OF 3(1)] assms(2) by (simp add: sessionIdWellFormed_def)
    moreover have "s' = s1 \<or> (\<exists>ms. s' = adoptSessionId ms s1)"
      using query_try_cases [OF 3(2)] by (auto split: option.splits)
    ultimately show ?thesis by (auto intro: adoptSessionId_wellFormed)
  qed
qed

text \<open>
  C1: when \<open>query\<close> returns the messages of a stream it consumed to its end, and some
  message carries the non-empty session id \<open>sid\<close> while no later message carries a
  truthy one, the current session id is \<open>sid\<close> afterwards; when no message carries one,
  the current session id is what it was. (The returned messages are the stream's, by
  \<open>query_returning\<close>.)
\<close>

theorem query_adopts_last_session_id:
  assumes "query env s w p h opts ab k = (Inr msgs, s', w', d)"
  shows "(msgs = xs @ m # ys \<and> getProp m ''session_id'' = JStr sid \<and> sid \<noteq> [] \<and>
          (\<forall>y\<in>set ys. \<not> truthy (getProp y ''session_id''))
            \<longrightarrow> currentSessionId s' = JStr sid) \<and>
         ((\<forall>y\<in>set msgs. \<not> truthy (getProp y ''session_id''))
            \<longrightarrow> currentSessionId s' = currentSessionId s)"
proof -
  from query_returning [OF assms]
  obtain s1 where s1: "currentSessionId s1 = currentSessionId s" "s' = adoptSessionId msgs s1"
    by blast
  show ?thesis
  proof (intro conjI impI)
    assume a: "msgs = xs @ m # ys \<and> getProp m ''session_id'' = JStr sid \<and> sid \<noteq> [] \<and>
          (\<forall>y\<in>set ys. \<not> truthy (getProp y ''session_id''))"
    then have "truthy (getProp m ''session_id'')" by simp
    then have "adoptSessionId (xs @ m # ys) s1 = s1\<lparr>currentSessionId := getProp m ''session_id''\<rparr>"
      using a by (intro adoptSessionId_last) auto
    then show "currentSessionId s' = JStr sid" using s1(2) a by simp
  next
    assume "\<forall>y\<in>set msgs. \<not> truthy (getProp y ''session_id'')"
    then have "adoptSessionId msgs s1 = s1" by (rule adoptSessionId_none)
    then show "currentSessionId s' = currentSessionId s" using s1 by simp
  qed
qed

lemmas run_defs = query_def query_try_def makeQueryParams_def finalOptions_def defaultOptions_def
  effectivePrompt_def truthyString_def ensureInitialized_def awaitInitialize_def initialize_def
  initialize_try_def importModule_def setupWorkingDirectory_def setupWorkingDirectory_try_def
  useDirectory_def createClaudeMdFile_def mkdirSync_def existsSync_def checkClaudeMd_def
  adoptSessionId_def lastMessageWithSessionId_def hasProp_def getProp_def deliver_def
  convertMessage_def showErrorMessage_def showWarningMessage_def newService_def clearSession_def
  Let_def

lemmas install_defs = demoEnv_def tempEnv_def brokenEnv_def demoWorld_def userWorld_def
  noFiles_def noError_def noLocalModule_def demoJoin_def demoDirname_def demoClaudeMd_def
  demoSystemPrompt_def demoStringify_def demoSdk_def brokenSdk_def demoInitMessage_def
  demoTextMessage_def resumedService_def resumeOverride_def maxTurnsOverride_def demoSink_def
  emptyTextMessage_def bogusMessage_def

text \<open>
  A freshly constructed service, initialized by its first query, adopts \<^verbatim>\<open>S1\<close> from a
  stream whose first message carries it and whose second carries none.
\<close>

theorem query_adopts_last_session_id_witness:
  "currentSessionId (fst (snd (query demoEnv newService demoWorld (Some ''a landing page'') None
      None None (Some demoSink)))) = JStr ''S1''"
proof -
  let ?run = "query demoEnv newService demoWorld (Some ''a landing page'') None None None
      (Some demoSink)"
  have ret: "fst ?run = Inr [demoInitMessage, demoTextMessage]"
    by (simp add: run_defs install_defs)
  have run: "?run = (Inr [demoInitMessage, demoTextMessage],
      fst (snd ?run), fst (snd (snd ?run)), snd (snd (snd ?run)))"
    using ret by (metis prod.collapse)
  have "[demoInitMessage, demoTextMessage] = [] @ demoInitMessage # [demoTextMessage] \<and>
      getProp demoInitMessage ''session_id'' = JStr ''S1'' \<and> ''S1'' \<noteq> [] \<and>
      (\<forall>y\<in>set [demoTextMessage]. \<not> truthy (getProp y ''session_id''))"
    by (simp add: getProp_def demoInitMessage_def demoTextMessage_def)
  then show ?thesis
    using query_adopts_last_session_id [OF run, of "[]" demoInitMessage "[demoTextMessage]" "''S1''"]
    by blast
qed

text \<open>
  C9: a call of \<open>query\<close> that fails leaves the current session id as it was; and when
  the stream handed out by the SDK throws, the call fails with what the stream threw,
  whatever session ids the messages before it carried.
\<close>

theorem query_stream_error_keeps_session_id:
  assumes "query env s w p h opts ab k = (r, s', w', d)"
  shows "(r = Inl e \<longrightarrow> currentSessionId s' = currentSessionId s) \<and>
         (sdkCalls w' = sdkCalls w @ [params] \<and> claudeCodeQuery s' = Some q \<and>
          streamError (q params) = Some e
            \<longrightarrow> r = Inl e \<and> currentSessionId s' = currentSessionId s)"
proof -
  have failed: "currentSessionId s' = currentSessionId s" if err: "r = Inl e"
  proof -
    from query_cases [OF assms]
    consider "s' = s" | "currentSessionId s' = currentSessionId s"
      | pr s1 w1 w2 where "ensureInitialized env s w = (None, s1, w1)"
          "query_try env s1 w1 pr opts ab k = (r, s', w2, d)"
      by blast
    then show ?thesis
    proof cases
      case 3
      have "s' = s1" using query_try_cases [OF 3(2)] err by (auto split: option.splits)
      then show ?thesis using ensureInitialized_unrelated [OF 3(1)] by simp
    qed simp_all
  qed
  have thrown: "r = Inl e"
    if a: "sdkCalls w' = sdkCalls w @ [params]" "claudeCodeQuery s' = Some q"
      "streamError (q params) = Some e"
  proof -
    from query_reaching_sdk [OF assms a(1)]
    obtain s1 q1 where q1: "claudeCodeQuery s' = Some q1"
      and r: "(case streamError (q1 params) of
                Some e \<Rightarrow> r = Inl e \<and> s' = s1
              | None \<Rightarrow> r = Inr (streamItems (q1 params)) \<and>
                         s' = adoptSessionId (streamItems (q1 params)) s1)"
      by blast
    have "q1 = q" using q1 a(2) by simp
    then show ?thesis using r a(3) by simp
  qed
  show ?thesis using failed thrown by blast
qed

text \<open>
  The stream yields a message with session id \<^verbatim>\<open>S2\<close> and then throws: the service keeps
  \<^verbatim>\<open>S1\<close>.
\<close>

theorem query_stream_error_keeps_session_id_witness:
  "fst (query brokenEnv resumedService demoWorld (Some ''a landing page'') None None None None)
     = Inl (Error ''connection reset'') \<and>
   currentSessionId (fst (snd (query brokenEnv resumedService demoWorld (Some ''a landing page'')
     None None None None))) = JStr ''S1''"
proof -
  let ?run = "query brokenEnv resumedService demoWorld (Some ''a landing page'') None None None
      None"
  have ret: "fst ?run = Inl (Error ''connection reset'')"
    by (simp add: run_defs install_defs)
  have run: "?run = (Inl (Error ''connection reset''),
      fst (snd ?run), fst (snd (snd ?run)), snd (snd (snd ?run)))"
    using ret by (metis prod.collapse)
  have "currentSessionId (fst (snd ?run)) = currentSessionId resumedService"
    using query_stream_error_keeps_session_id [OF run, of "Error ''connection reset''"] by blast
  then show ?thesis using ret by (simp add: resumedService_def newService_def)
qed

text \<open>
  C6: with a prompt that is absent or empty and a history that is absent or empty,
  \<open>query\<close> fails with \<open>MissingPrompt\<close> before anything else happens: the service and the
  world, the calls to the SDK among it, are unchanged and nothing reaches the sink.
\<close>

theorem query_missing_prompt:
  assumes "\<not> truthyString p" and "h = None \<or> h = Some []"
  shows "query env s w p h opts ab k = (Inl MissingPrompt, s, w, [])"
proof -
  have "effectivePrompt p h = p" using assms by (auto simp: effectivePrompt_def)
  moreover have "p = None \<or> p = Some []"
    using assms(1) by (auto simp: truthyString_def split: option.splits)
  ultimately show ?thesis by (auto simp: query_def)
qed

theorem query_missing_prompt_witness:
  "query demoEnv newService demoWorld (Some []) (Some []) None None None
     = (Inl MissingPrompt, newService, demoWorld, []) \<and> sdkCalls demoWorld = []"
  using query_missing_prompt [of "Some []" "Some []" demoEnv newService demoWorld None None None]
  by (simp add: truthyString_def demoWorld_def)

text \<open>
  A ready service given a prompt returns the messages of a stream that ends: the call
  reaches the SDK once, adopts the session id and hands every translation to the sink.
\<close>

lemma query_on_ready_service:
  assumes "isInitialized s" and "initializationPromise s \<noteq> Some Pending"
    and "claudeCodeQuery s = Some q"
    and "effectivePrompt p h = Some pr" and "pr \<noteq> []"
    and "checkClaudeMd env s w = None"
    and "streamError (q (makeQueryParams env s pr opts ab)) = None"
  shows "query env s w p h opts ab k =
           (Inr (streamItems (q (makeQueryParams env s pr opts ab))),
            adoptSessionId (streamItems (q (makeQueryParams env s pr opts ab))) s,
            w\<lparr>sdkCalls := sdkCalls w @ [makeQueryParams env s pr opts ab]\<rparr>,
            concat (map (deliver env k) (streamItems (q (makeQueryParams env s pr opts ab)))))"
proof -
  have "ensureInitialized env s w = (None, s, w)"
    using assms(1,2,3) by (simp add: ensureInitialized_def)
  moreover have "query_try env s w pr opts ab k =
           (Inr (streamItems (q (makeQueryParams env s pr opts ab))),
            adoptSessionId (streamItems (q (makeQueryParams env s pr opts ab))) s,
            w\<lparr>sdkCalls := sdkCalls w @ [makeQueryParams env s pr opts ab]\<rparr>,
            concat (map (deliver env k) (streamItems (q (makeQueryParams env s pr opts ab)))))"
    using assms(3,6,7) by (simp add: query_try_def Let_def consume_eq)
  ultimately show ?thesis using assms(4,5) by (simp add: query_def)
qed

text \<open>The first query of a fresh service initializes it, when the SDK can be loaded.\<close>

lemma first_query_initializes:
  "isInitialized (fst (snd (query demoEnv newService demoWorld (Some ''a landing page'') None
      None None None))) \<and>
   initializationPromise (fst (snd (query demoEnv newService demoWorld (Some ''a landing page'')
      None None None None))) = Some Fulfilled \<and>
   workingDirectory (fst (snd (query demoEnv newService demoWorld (Some ''a landing page'') None
      None None None))) = ''/ws/.superdesign''"
  by (simp add: run_defs install_defs)

subsection \<open>Flattening\<close>

lemma js_join_no_separator: "js_join [] xs = concat (map joinElem xs)"
  by (induction "[] :: string" xs rule: js_join.induct) simp_all

lemma joinElem_renderPart: "joinElem (renderPart p) = spec_part p"
  by (simp add: joinElem_def renderPart_def spec_part_def split: option.splits)

lemma contentString_spec:
  "c \<noteq> OtherContent \<Longrightarrow> contentString c = spec_content c"
  by (cases c) (simp_all add: contentString_def js_join_no_separator joinElem_renderPart comp_def)

lemma renderMessage_spec:
  "msgContent t \<noteq> OtherContent \<Longrightarrow> renderMessage t = spec_turn t"
  by (simp add: renderMessage_def spec_turn_def contentString_spec)

lemma foldl_js_join:
  "foldl (\<lambda>acc u. acc @ sep @ f u) (pre @ f t) ts
     = pre @ js_join sep (map (\<lambda>u. Some (f u)) (t # ts))"
proof (induction ts arbitrary: pre t)
  case Nil
  then show ?case by (simp add: joinElem_def)
next
  case (Cons u us)
  have "foldl (\<lambda>acc u. acc @ sep @ f u) (pre @ f t) (u # us)
      = foldl (\<lambda>acc u. acc @ sep @ f u) ((pre @ f t @ sep) @ f u) us"
    by simp
  also have "\<dots> = (pre @ f t @ sep) @ js_join sep (map (\<lambda>u. Some (f u)) (u # us))"
    by (rule Cons.IH)
  finally show ?case by (simp add: joinElem_def)
qed

lemma spec_flatten_js_join:
  "ts \<noteq> [] \<Longrightarrow>
   spec_flatten ts = js_join [CHR 0x0A, CHR 0x0A] (map (\<lambda>u. Some (spec_turn u)) ts)"
  using foldl_js_join [of "[CHR 0x0A, CHR 0x0A]" spec_turn "[]"]
  by (cases ts) simp_all

text \<open>
  C7: with no prompt and a non-empty history whose contents are strings or part arrays,
  the effective prompt is the flattening as the specification words it, and it is the
  prompt handed to the SDK.
\<close>

theorem effectivePrompt_flattens_history:
  assumes "\<not> truthyString p" and "msgs \<noteq> []"
    and "\<forall>msg\<in>set msgs. msgContent msg \<noteq> OtherContent"
  shows "effectivePrompt p (Some msgs) = Some (spec_flatten msgs) \<and>
         (query env s w p (Some msgs) opts ab k = (r, s', w', d) \<and>
          sdkCalls w' = sdkCalls w @ [params] \<longrightarrow> qp_prompt params = spec_flatten msgs)"
proof -
  have same: "map (\<lambda>msg. Some (renderMessage msg)) msgs = map (\<lambda>u. Some (spec_turn u)) msgs"
    using assms(3) by (simp add: renderMessage_spec)
  have eff: "effectivePrompt p (Some msgs) = Some (spec_flatten msgs)"
    using assms(1,2) by (simp add: effectivePrompt_def spec_flatten_js_join same)
  have "qp_prompt params = spec_flatten msgs"
    if "query env s w p (Some msgs) opts ab k = (r, s', w', d)"
      and "sdkCalls w' = sdkCalls w @ [params]"
    using query_reaching_sdk [OF that] eff by (auto simp: makeQueryParams_def)
  then show ?thesis using eff by blast
qed

text \<open>
  The two-turn history of the specification, and a turn with a text part and an image part.
\<close>

theorem effectivePrompt_flattens_history_witness:
  "effectivePrompt None (Some demoHistory)
     = Some (''user: hi'' @ [CHR 0x0A, CHR 0x0A] @ ''assistant: hello'') \<and>
   effectivePrompt (Some []) (Some partsHistory) = Some ''user: see [image]''"
proof -
  have "effectivePrompt None (Some demoHistory) = Some (spec_flatten demoHistory)"
    using effectivePrompt_flattens_history [of None demoHistory]
    by (simp add: truthyString_def demoHistory_def)
  moreover have "effectivePrompt (Some []) (Some partsHistory) = Some (spec_flatten partsHistory)"
    using effectivePrompt_flattens_history [of "Some []" partsHistory]
    by (simp add: truthyString_def partsHistory_def)
  ultimately show ?thesis
    by (simp add: demoHistory_def partsHistory_def spec_turn_def spec_part_def)
qed

subsection \<open>Options\<close>

lemma defaultOptions_resume: "defaultOptions env s ''resume'' = None"
  by (simp add: defaultOptions_def)

lemma finalOptions_resume:
  "finalOptions env s opts ''resume'' =
     (if truthy (currentSessionId s) then Some (currentSessionId s) else callerResume opts)"
  by (simp add: finalOptions_def Let_def callerResume_def map_add_def defaultOptions_resume
      split: option.splits)

lemma finalOptions_override:
  "overrides key = Some v \<Longrightarrow> key \<noteq> ''resume'' \<or> \<not> truthy (currentSessionId s) \<Longrightarrow>
   finalOptions env s (Some overrides) key = Some v"
  by (auto simp: finalOptions_def Let_def map_add_def)

lemma finalOptions_default:
  "(case opts of None \<Rightarrow> None | Some overrides \<Rightarrow> overrides key) = None \<Longrightarrow> key \<noteq> ''resume'' \<Longrightarrow>
   finalOptions env s opts key = defaultOptions env s key"
  by (auto simp: finalOptions_def Let_def map_add_def split: option.splits)

text \<open>
  C2 (amended): the options handed to the SDK hold a resume token equal to the current
  session id exactly when a session id is known; when none is known, the \<^verbatim>\<open>resume\<close>
  option is what the caller's options give for it, so after \<open>clearSession\<close> there is no
  resume token unless the caller supplies one, which is handed on as it is.
\<close>

theorem resume_token_iff_session_known:
  assumes "query env s w p h opts ab k = (r, s', w', d)"
    and "sdkCalls w' = sdkCalls w @ [params]"
  shows "(sessionIdWellFormed s \<longrightarrow>
            (resumeToken params = Some (currentSessionId s)) = (currentSessionId s \<noteq> JNull) \<and>
            qp_options params ''resume'' =
              (if currentSessionId s \<noteq> JNull then Some (currentSessionId s)
               else callerResume opts)) \<and>
         (s = clearSession s0 \<longrightarrow> qp_options params ''resume'' = callerResume opts)"
proof -
  from query_reaching_sdk [OF assms]
  obtain pr s1 where s1: "currentSessionId s1 = currentSessionId s"
    and "params = makeQueryParams env s1 pr opts ab"
    by blast
  then have res: "qp_options params ''resume'' =
      (if truthy (currentSessionId s) then Some (currentSessionId s) else callerResume opts)"
    by (simp add: makeQueryParams_def finalOptions_resume)
  have known: "truthy (currentSessionId s) = (currentSessionId s \<noteq> JNull)"
    if "sessionIdWellFormed s"
    using that by (auto simp: sessionIdWellFormed_def)
  have token: "(resumeToken params = Some (currentSessionId s)) = (currentSessionId s \<noteq> JNull)"
    if "sessionIdWellFormed s"
    using known [OF that] res
    by (auto simp: resumeToken_def split: option.splits if_splits)
  have cleared: "qp_options params ''resume'' = callerResume opts" if "s = clearSession s0"
    using that res by (simp add: clearSession_def)
  show ?thesis using res known token cleared by simp
qed

text \<open>
  C3 (amended): a key of the caller's options keeps the caller's value in the options
  handed to the SDK, unless the key is \<^verbatim>\<open>resume\<close> and a session id is known: then
  \<^verbatim>\<open>resume\<close> is the current session id.
\<close>

theorem caller_overrides_win_except_resume:
  assumes "query env s w p h (Some overrides) ab k = (r, s', w', d)"
    and "sdkCalls w' = sdkCalls w @ [params]"
    and "overrides key = Some v"
  shows "(key \<noteq> ''resume'' \<or> \<not> truthy (currentSessionId s) \<longrightarrow> qp_options params key = Some v) \<and>
         (key = ''resume'' \<and> truthy (currentSessionId s)
            \<longrightarrow> qp_options params key = Some (currentSessionId s))"
proof -
  from query_reaching_sdk [OF assms(1,2)]
  obtain pr s1 where s1: "currentSessionId s1 = currentSessionId s"
    and ps: "params = makeQueryParams env s1 pr (Some overrides) ab"
    by blast
  have "qp_options params key = Some v" if "key \<noteq> ''resume'' \<or> \<not> truthy (currentSessionId s)"
    using that ps s1 assms(3) finalOptions_override [of overrides key v s1 env]
    by (simp add: makeQueryParams_def)
  moreover have "qp_options params key = Some (currentSessionId s)"
    if "key = ''resume'' \<and> truthy (currentSessionId s)"
    using that ps s1 by (simp add: makeQueryParams_def finalOptions_resume)
  ultimately show ?thesis by blast
qed

text \<open>
  With \<^verbatim>\<open>S1\<close> known the token is \<^verbatim>\<open>S1\<close>; after \<open>clearSession\<close> there is none; and a
  caller's \<^verbatim>\<open>resume\<close> is handed on after \<open>clearSession\<close>.
\<close>

theorem resume_token_iff_session_known_witness:
  "sessionIdWellFormed resumedService \<and>
   resumeToken (last (sdkCalls (fst (snd (snd (query demoEnv resumedService demoWorld
      (Some ''a landing page'') None None None None)))))) = Some (JStr ''S1'') \<and>
   qp_options (last (sdkCalls (fst (snd (snd (query demoEnv (clearSession resumedService) demoWorld
      (Some ''a landing page'') None None None None)))))) ''resume'' = None \<and>
   qp_options (last (sdkCalls (fst (snd (snd (query demoEnv (clearSession resumedService) demoWorld
      (Some ''a landing page'') None (Some resumeOverride) None None)))))) ''resume''
     = callerResume (Some resumeOverride)"
proof -
  let ?known = "query demoEnv resumedService demoWorld (Some ''a landing page'') None None None
      None"
  let ?cleared = "query demoEnv (clearSession resumedService) demoWorld (Some ''a landing page'')
      None None None None"
  let ?passed = "query demoEnv (clearSession resumedService) demoWorld (Some ''a landing page'')
      None (Some resumeOverride) None None"
  have run1: "?known = (fst ?known, fst (snd ?known), fst (snd (snd ?known)), snd (snd (snd ?known)))"
    by simp
  have calls1: "sdkCalls (fst (snd (snd ?known)))
      = sdkCalls demoWorld @ [last (sdkCalls (fst (snd (snd ?known))))]"
    by (simp add: run_defs install_defs)
  have run2: "?cleared = (fst ?cleared, fst (snd ?cleared), fst (snd (snd ?cleared)),
      snd (snd (snd ?cleared)))"
    by simp
  have calls2: "sdkCalls (fst (snd (snd ?cleared)))
      = sdkCalls demoWorld @ [last (sdkCalls (fst (snd (snd ?cleared))))]"
    by (simp add: run_defs install_defs)
  have run3: "?passed = (fst ?passed, fst (snd ?passed), fst (snd (snd ?passed)),
      snd (snd (snd ?passed)))"
    by simp
  have calls3: "sdkCalls (fst (snd (snd ?passed)))
      = sdkCalls demoWorld @ [last (sdkCalls (fst (snd (snd ?passed))))]"
    by (simp add: run_defs install_defs)
  have wf: "sessionIdWellFormed resumedService" "currentSessionId resumedService = JStr ''S1''"
    by (simp_all add: sessionIdWellFormed_def resumedService_def newService_def)
  have none: "callerResume None = None" by (simp add: callerResume_def)
  have "resumeToken (last (sdkCalls (fst (snd (snd ?known))))) = Some (JStr ''S1'')"
    using resume_token_iff_session_known [OF run1 calls1] wf by simp
  moreover have "qp_options (last (sdkCalls (fst (snd (snd ?cleared))))) ''resume'' = None"
    using resume_token_iff_session_known [OF run2 calls2, of resumedService] none by simp
  moreover have "qp_options (last (sdkCalls (fst (snd (snd ?passed))))) ''resume''
      = callerResume (Some resumeOverride)"
    using resume_token_iff_session_known [OF run3 calls3, of resumedService] by simp
  ultimately show ?thesis using wf(1) by simp
qed

text \<open>
  After \<open>clearSession\<close>, a query whose options carry \<^verbatim>\<open>resume: "X"\<close> hands that token to
  the SDK.
\<close>

theorem resume_token_after_clear_counterexample:
  "callerResume (Some resumeOverride) = Some (JStr ''X'') \<and>
   length (sdkCalls (fst (snd (snd (query demoEnv (clearSession resumedService) demoWorld
      (Some ''a landing page'') None (Some resumeOverride) None None))))) = 1 \<and>
   qp_options (last (sdkCalls (fst (snd (snd (query demoEnv (clearSession resumedService) demoWorld
      (Some ''a landing page'') None (Some resumeOverride) None None)))))) ''resume''
     = Some (JStr ''X'')"
  by (simp add: run_defs install_defs callerResume_def)

theorem caller_overrides_win_except_resume_witness:
  "qp_options (last (sdkCalls (fst (snd (snd (query demoEnv resumedService demoWorld
      (Some ''a landing page'') None (Some maxTurnsOverride) None None)))))) ''maxTurns''
     = Some (JNum 5) \<and>
   qp_options (last (sdkCalls (fst (snd (snd (query demoEnv resumedService demoWorld
      (Some ''a landing page'') None (Some resumeOverride) None None)))))) ''resume''
     = Some (currentSessionId resumedService)"
proof -
  let ?run = "query demoEnv resumedService demoWorld (Some ''a landing page'') None
      (Some maxTurnsOverride) None None"
  let ?run2 = "query demoEnv resumedService demoWorld (Some ''a landing page'') None
      (Some resumeOverride) None None"
  have run: "?run = (fst ?run, fst (snd ?run), fst (snd (snd ?run)), snd (snd (snd ?run)))"
    by simp
  have calls: "sdkCalls (fst (snd (snd ?run)))
      = sdkCalls demoWorld @ [last (sdkCalls (fst (snd (snd ?run))))]"
    by (simp add: run_defs install_defs)
  have key: "maxTurnsOverride ''maxTurns'' = Some (JNum 5)" by (simp add: maxTurnsOverride_def)
  have run2: "?run2 = (fst ?run2, fst (snd ?run2), fst (snd (snd ?run2)), snd (snd (snd ?run2)))"
    by simp
  have calls2: "sdkCalls (fst (snd (snd ?run2)))
      = sdkCalls demoWorld @ [last (sdkCalls (fst (snd (snd ?run2))))]"
    by (simp add: run_defs install_defs)
  have key2: "resumeOverride ''resume'' = Some (JStr ''X'')" by (simp add: resumeOverride_def)
  have sid: "truthy (currentSessionId resumedService)"
    by (simp add: resumedService_def newService_def)
  show ?thesis
    using caller_overrides_win_except_resume [OF run calls key]
      caller_overrides_win_except_resume [OF run2 calls2 key2] sid
    by simp
qed

text \<open>
  With the session id \<^verbatim>\<open>S1\<close> known, the caller's \<^verbatim>\<open>resume: "X"\<close> is replaced by
  \<^verbatim>\<open>S1\<close>.
\<close>

theorem caller_resume_override_counterexample:
  "resumeOverride ''resume'' = Some (JStr ''X'') \<and>
   length (sdkCalls (fst (snd (snd (query demoEnv resumedService demoWorld
      (Some ''a landing page'') None (Some resumeOverride) None None))))) = 1 \<and>
   qp_options (last (sdkCalls (fst (snd (snd (query demoEnv resumedService demoWorld
      (Some ''a landing page'') None (Some resumeOverride) None None)))))) ''resume''
     = Some (JStr ''S1'')"
  by (simp add: run_defs install_defs)

subsection \<open>Translation\<close>

text \<open>
  C5 (amended): a message tagged \<^verbatim>\<open>text\<close> whose text is a non-empty string is handed to
  the sink as an assistant message with that text; a message whose tag is none of the
  recognized ones is converted to nothing, without an error, and nothing reaches the sink.
\<close>

theorem text_and_unrecognized_translation:
  "(getProp m ''type'' = JStr ''text'' \<and> getProp m ''text'' = JStr t \<and> t \<noteq> []
      \<longrightarrow> convertMessage env m = Inr (Some \<lparr>role = ''assistant'', content = JStr t\<rparr>) \<and>
          deliver env (Some callback) m = [\<lparr>role = ''assistant'', content = JStr t\<rparr>]) \<and>
   (getProp m ''type'' \<notin> set recognizedTags
      \<longrightarrow> convertMessage env m = Inr None \<and> deliver env onMessage m = [])"
  by (auto simp: convertMessage_def deliver_def recognizedTags_def split: option.splits)

theorem text_and_unrecognized_translation_witness:
  "deliver demoEnv (Some demoSink) demoTextMessage = [\<lparr>role = ''assistant'', content = JStr ''hello''\<rparr>] \<and>
   convertMessage demoEnv bogusMessage = Inr None \<and>
   deliver demoEnv (Some demoSink) bogusMessage = []"
proof -
  have "getProp demoTextMessage ''type'' = JStr ''text'' \<and>
      getProp demoTextMessage ''text'' = JStr ''hello'' \<and> ''hello'' \<noteq> []"
    by (simp add: getProp_def demoTextMessage_def)
  moreover have "getProp bogusMessage ''type'' \<notin> set recognizedTags"
    by (simp add: getProp_def bogusMessage_def recognizedTags_def)
  ultimately show ?thesis
    using text_and_unrecognized_translation
        [where m = demoTextMessage and t = "''hello''" and env = demoEnv and callback = demoSink]
      text_and_unrecognized_translation
        [where m = bogusMessage and env = demoEnv and onMessage = "Some demoSink"]
    by simp
qed

text \<open>
  A message tagged \<^verbatim>\<open>text\<close> with the empty text: nothing reaches the sink.
\<close>

theorem empty_text_counterexample:
  "getProp emptyTextMessage ''type'' = JStr ''text'' \<and>
   deliver demoEnv (Some demoSink) emptyTextMessage
     \<noteq> [\<lparr>role = ''assistant'', content = getProp emptyTextMessage ''text''\<rparr>] \<and>
   deliver demoEnv (Some demoSink) emptyTextMessage = []"
  by (simp add: deliver_def convertMessage_def getProp_def emptyTextMessage_def)

text \<open>
  C10: a message tagged \<^verbatim>\<open>text\<close> with a falsy (absent or empty) text, one tagged
  \<^verbatim>\<open>assistant\<close> with a falsy \<^verbatim>\<open>message\<close>, and one tagged \<^verbatim>\<open>result\<close> with falsy
  \<^verbatim>\<open>content\<close> and \<^verbatim>\<open>result\<close> are converted to nothing, and nothing reaches the sink.
\<close>

theorem falsy_fields_are_skipped:
  assumes "(getProp m ''type'' = JStr ''text'' \<and> \<not> truthy (getProp m ''text'')) \<or>
           (getProp m ''type'' = JStr ''assistant'' \<and> \<not> truthy (getProp m ''message'')) \<or>
           (getProp m ''type'' = JStr ''result'' \<and> \<not> truthy (getProp m ''content'') \<and>
            \<not> truthy (getProp m ''result''))"
  shows "convertMessage env m = Inr None \<and> deliver env onMessage m = []"
  using assms by (auto simp: convertMessage_def deliver_def split: option.splits)

theorem falsy_fields_are_skipped_witness:
  "convertMessage demoEnv emptyTextMessage = Inr None \<and>
   deliver demoEnv (Some demoSink) emptyTextMessage = [] \<and>
   deliver demoEnv (Some demoSink) [(''type'', JStr ''text'')] = [] \<and>
   deliver demoEnv (Some demoSink) [(''type'', JStr ''assistant''), (''message'', JNull)] = [] \<and>
   deliver demoEnv (Some demoSink) [(''type'', JStr ''result''), (''result'', JStr [])] = []"
  using falsy_fields_are_skipped [of emptyTextMessage demoEnv "Some demoSink"]
    falsy_fields_are_skipped [of "[(''type'', JStr ''text'')]" demoEnv "Some demoSink"]
    falsy_fields_are_skipped
      [of "[(''type'', JStr ''assistant''), (''message'', JNull)]" demoEnv "Some demoSink"]
    falsy_fields_are_skipped
      [of "[(''type'', JStr ''result''), (''result'', JStr [])]" demoEnv "Some demoSink"]
  by (simp add: getProp_def emptyTextMessage_def)

text \<open>What a call of \<open>query\<close> hands to the sink is what the translation delivers, in order.\<close>

lemma query_delivered:
  assumes "query env s w p h opts ab k = (Inr msgs, s', w', d)"
  shows "d = concat (map (deliver env k) msgs)"
proof -
  from query_returning [OF assms]
  obtain q params where c: "sdkCalls w' = sdkCalls w @ [params]"
    and q: "claudeCodeQuery s' = Some q" and items: "streamItems (q params) = msgs"
    by blast
  from query_reaching_sdk [OF assms c]
  obtain q1 where "claudeCodeQuery s' = Some q1"
    "d = concat (map (deliver env k) (streamItems (q1 params)))"
    by blast
  then show ?thesis using q items by simp
qed

end
